theory Spec2Isabelle
  imports Main
begin

section \<open>ReadyBuddy: the request handlers of main.py over an explicit store\<close>

text \<open>
  The development embeds the persistence and request-handling layer of \<^verbatim>\<open>src/main.py\<close>:
  the module catalog, the two SQLite tables, the onboarding handler and the quiz handler.
  Python strings are modelled as \<^typ>\<open>string\<close> holding their UTF-8 bytes, so that
  string equality and emptiness are those of Python; a character outside ASCII is written
  as its bytes (\<open>CHR 0xE2\<close> ...).  Template rendering and static files are not modelled:
  a rendered page is the template's name with the context handed to it.
\<close>

subsection \<open>Python built-ins used by the handlers\<close>

text \<open>
  \<^verbatim>\<open>str(n)\<close> for an integer: its decimal digits, with a leading minus sign when negative.
  The handlers apply it to a key of the store and to the id of a module of the catalog.
\<close>

definition digit_char :: "nat \<Rightarrow> char" where
  "digit_char d = char_of (48 + d)"

fun digits :: "nat \<Rightarrow> string" where
  "digits n = (if n < 10 then [digit_char n] else digits (n div 10) @ [digit_char (n mod 10)])"

declare digits.simps [simp del]

definition py_str :: "int \<Rightarrow> string" where
  "py_str n = (if n < 0 then CHR ''-'' # digits (nat (- n)) else digits (nat n))"

text \<open>
  \<^verbatim>\<open>int(s)\<close> for a string, as CPython 3.11 computes it with its default settings.  The
  handlers call it on a query parameter and on a cookie, so on any string a client sends.
  The interpreter works in two steps.  First every character from 127 on is rewritten: a
  Unicode space becomes a blank, a Unicode decimal digit becomes the ASCII digit of its
  value, and at any other character the string is cut off behind a question mark; a
  string that is ASCII throughout is taken as it is.  Then the ASCII text is parsed in
  base 10: blanks, an optional sign, digits in which single underscores may separate
  digits, blanks; more than 4300 digits are refused.  \<^verbatim>\<open>ValueError\<close> is modelled as
  \<open>None\<close>.

  The model works on the UTF-8 bytes of the string, so it decodes them to code points
  first.  Bytes that are the UTF-8 form of no string are given \<open>None\<close>.
\<close>

definition is_cont :: "char \<Rightarrow> bool" where
  "is_cont c = (let k = of_char c :: nat in 128 \<le> k \<and> k < 192)"

definition cont_bits :: "char \<Rightarrow> nat" where
  "cont_bits c = of_char c - 128"

fun utf8_decode :: "string \<Rightarrow> nat list option" where
  "utf8_decode [] = Some []"
| "utf8_decode (b # bs) =
     (let k = of_char b :: nat in
      if k < 128 then map_option ((#) k) (utf8_decode bs)
      else if 194 \<le> k \<and> k < 224 then
        (case bs of
           c1 # r \<Rightarrow>
             if is_cont c1 then
               map_option ((#) ((k - 192) * 64 + cont_bits c1)) (utf8_decode r)
             else None
         | _ \<Rightarrow> None)
      else if 224 \<le> k \<and> k < 240 then
        (case bs of
           c1 # c2 # r \<Rightarrow>
             (let cp = (k - 224) * 4096 + cont_bits c1 * 64 + cont_bits c2 in
              if is_cont c1 \<and> is_cont c2 \<and> 2048 \<le> cp \<and> \<not> (55296 \<le> cp \<and> cp \<le> 57343)
              then map_option ((#) cp) (utf8_decode r)
              else None)
         | _ \<Rightarrow> None)
      else if 240 \<le> k \<and> k < 245 then
        (case bs of
           c1 # c2 # c3 # r \<Rightarrow>
             (let cp = (k - 240) * 262144 + cont_bits c1 * 4096 + cont_bits c2 * 64
                       + cont_bits c3 in
              if is_cont c1 \<and> is_cont c2 \<and> is_cont c3 \<and> 65536 \<le> cp \<and> cp \<le> 1114111
              then map_option ((#) cp) (utf8_decode r)
              else None)
         | _ \<Rightarrow> None)
      else None)"

text \<open>
  The interpreter's character tables (Unicode 14.0): the spaces of
  \<^verbatim>\<open>Py_UNICODE_ISSPACE\<close>, and the decimal digits of \<^verbatim>\<open>Py_UNICODE_TODECIMAL\<close>, which come
  in runs of ten from a zero on; \<open>decimal_zeros\<close> lists the zeros.
\<close>

definition is_unicode_space :: "nat \<Rightarrow> bool" where
  "is_unicode_space cp =
     ((9 \<le> cp \<and> cp \<le> 13) \<or> (28 \<le> cp \<and> cp \<le> 32) \<or> cp = 0x85 \<or> cp = 0xA0 \<or>
      cp = 0x1680 \<or> (0x2000 \<le> cp \<and> cp \<le> 0x200A) \<or> cp = 0x2028 \<or> cp = 0x2029 \<or>
      cp = 0x202F \<or> cp = 0x205F \<or> cp = 0x3000)"

definition decimal_zeros :: "nat list" where
  "decimal_zeros =
     [
      0x30, 0x660, 0x6F0, 0x7C0, 0x966, 0x9E6, 0xA66, 0xAE6,
      0xB66, 0xBE6, 0xC66, 0xCE6, 0xD66, 0xDE6, 0xE50, 0xED0,
      0xF20, 0x1040, 0x1090, 0x17E0, 0x1810, 0x1946, 0x19D0, 0x1A80,
      0x1A90, 0x1B50, 0x1BB0, 0x1C40, 0x1C50, 0xA620, 0xA8D0, 0xA900,
      0xA9D0, 0xA9F0, 0xAA50, 0xABF0, 0xFF10, 0x104A0, 0x10D30, 0x11066,
      0x110F0, 0x11136, 0x111D0, 0x112F0, 0x11450, 0x114D0, 0x11650, 0x116C0,
      0x11730, 0x118E0, 0x11950, 0x11C50, 0x11D50, 0x11DA0, 0x16A60, 0x16AC0,
      0x16B50, 0x1D7CE, 0x1D7D8, 0x1D7E2, 0x1D7EC, 0x1D7F6, 0x1E140, 0x1E2F0,
      0x1E950, 0x1FBF0]"

definition unicode_decimal :: "nat \<Rightarrow> nat option" where
  "unicode_decimal cp =
     (case find (\<lambda>z. z \<le> cp \<and> cp \<le> z + 9) decimal_zeros of
        None \<Rightarrow> None
      | Some z \<Rightarrow> Some (cp - z))"

text \<open>
  The rewriting step, \<^verbatim>\<open>_PyUnicode_TransformDecimalAndSpaceToASCII\<close>: 32 is the blank, 48
  the digit zero and 63 the question mark.
\<close>

fun transform_loop :: "nat list \<Rightarrow> nat list" where
  "transform_loop [] = []"
| "transform_loop (ch # rest) =
     (if ch < 127 then ch # transform_loop rest
      else if is_unicode_space ch then 32 # transform_loop rest
      else
        (case unicode_decimal ch of
           None \<Rightarrow> [63]
         | Some d \<Rightarrow> (48 + d) # transform_loop rest))"

definition transform_decimal_and_space :: "nat list \<Rightarrow> nat list" where
  "transform_decimal_and_space cps =
     (if list_all (\<lambda>ch. ch < 128) cps then cps else transform_loop cps)"

text \<open>
  The parsing step, \<^verbatim>\<open>PyLong_FromString\<close> in base 10.  Its blanks are those of
  \<^verbatim>\<open>Py_ISSPACE\<close>: tab to carriage return, and the space.
\<close>

definition is_space :: "char \<Rightarrow> bool" where
  "is_space c = (let k = of_char c :: nat in (9 \<le> k \<and> k \<le> 13) \<or> k = 32)"

definition is_digit :: "char \<Rightarrow> bool" where
  "is_digit c = (let k = of_char c :: nat in 48 \<le> k \<and> k \<le> 57)"

definition digit_val :: "char \<Rightarrow> nat" where
  "digit_val c = of_char c - 48"

text \<open>
  The limit on the number of digits applies to strings of more than 640 digits and is
  4300 unless the interpreter is configured otherwise; zero would switch it off.
\<close>

definition str_digits_check_threshold :: nat where
  "str_digits_check_threshold = 640"

definition int_max_str_digits :: nat where
  "int_max_str_digits = 4300"

text \<open>
  \<open>scan_digits prev acc cnt s\<close>: the digit loop of the parser, \<open>prev\<close> telling whether the
  character just read was an underscore, \<open>acc\<close> the value and \<open>cnt\<close> the number of the
  digits read so far; it returns the value, the number of digits and the rest of the
  input, or fails on a doubled or trailing underscore.
\<close>

fun scan_digits :: "bool \<Rightarrow> nat \<Rightarrow> nat \<Rightarrow> string \<Rightarrow> (nat \<times> nat \<times> string) option" where
  "scan_digits prev acc cnt [] = (if prev then None else Some (acc, cnt, []))"
| "scan_digits prev acc cnt (c # cs) =
     (if is_digit c then scan_digits False (acc * 10 + digit_val c) (Suc cnt) cs
      else if c = CHR ''_'' then (if prev then None else scan_digits True acc cnt cs)
      else if prev then None else Some (acc, cnt, c # cs))"

definition parse_unsigned :: "string \<Rightarrow> nat option" where
  "parse_unsigned s =
     (case s of
        [] \<Rightarrow> None
      | c # cs \<Rightarrow>
          if is_digit c then
            (case scan_digits False (digit_val c) 1 cs of
               None \<Rightarrow> None
             | Some (n, cnt, rest) \<Rightarrow>
                 if str_digits_check_threshold < cnt \<and> 0 < int_max_str_digits
                    \<and> int_max_str_digits < cnt
                 then None
                 else if dropWhile is_space rest = [] then Some n else None)
          else None)"

definition long_from_string :: "string \<Rightarrow> int option" where
  "long_from_string s =
     (case dropWhile is_space s of
        [] \<Rightarrow> None
      | c # cs \<Rightarrow>
          if c = CHR ''-'' then map_option (\<lambda>n. - int n) (parse_unsigned cs)
          else if c = CHR ''+'' then map_option int (parse_unsigned cs)
          else map_option int (parse_unsigned (c # cs)))"

definition py_int :: "string \<Rightarrow> int option" where
  "py_int s =
     (case utf8_decode s of
        None \<Rightarrow> None
      | Some cps \<Rightarrow> long_from_string (map char_of (transform_decimal_and_space cps)))"

text \<open>Truthiness of an \<^verbatim>\<open>Optional[str]\<close>: neither \<^verbatim>\<open>None\<close> nor the empty string.\<close>

fun truthy :: "string option \<Rightarrow> bool" where
  "truthy None = False"
| "truthy (Some s) = (s \<noteq> [])"

subsection \<open>Data model: the content catalog\<close>

text \<open>
  The class \<^verbatim>\<open>Module\<close>: its constructor stores the quiz as a dictionary with the keys
  \<^verbatim>\<open>text\<close>, \<^verbatim>\<open>options\<close> and \<^verbatim>\<open>answer\<close>.
\<close>

record question =
  qtext :: string
  options :: "string list"
  answer :: string

record Module =
  mod_id :: int
  title :: string
  description :: string
  content :: string
  question :: question
  image_file :: "string option"
  video_link :: "string option"

definition Module_init ::
  "int \<Rightarrow> string \<Rightarrow> string \<Rightarrow> string \<Rightarrow> string \<Rightarrow> string list \<Rightarrow> string \<Rightarrow>
   string option \<Rightarrow> string option \<Rightarrow> Module" where
  "Module_init i ttl descr cont question_text opts ans img vid =
     \<lparr>mod_id = i, title = ttl, description = descr, content = cont,
      question = \<lparr>qtext = question_text, options = opts, answer = ans\<rparr>,
      image_file = img, video_link = vid\<rparr>"

text \<open>The predefined modules, in the order of the source.\<close>

definition modules :: "Module list" where
  "modules = [
    Module_init 1
      (''Home Emergency Kit'')
      (''Build a basic emergency kit for your home.'')
      (''A well'' @ [CHR 0xE2, CHR 0x80, CHR 0x91] @ ''stocked emergency kit is critical. Ensure you have at least a three'' @ [CHR 0xE2, CHR 0x80, CHR 0x91] @ ''day supply of non'' @ [CHR 0xE2, CHR 0x80, CHR 0x91] @ ''perishable food, one gallon of water per person per day, a flashlight with extra batteries, a battery'' @ [CHR 0xE2, CHR 0x80, CHR 0x91] @ ''powered or hand'' @ [CHR 0xE2, CHR 0x80, CHR 0x91] @ ''crank radio, first aid supplies, a whistle to signal for help, and local maps. Rotate food and water every six months.'')
      (''What is the recommended minimum amount of water to store per person per day?'')
      [''Half a gallon'',
       ''One gallon'',
       ''Two gallons'']
      (''One gallon'')
      (None)
      (None),
    Module_init 2
      (''Fire Safety & Prevention'')
      (''Learn how to reduce fire risks and respond effectively.'')
      (''Install smoke detectors on every level of your home and test them monthly. Practice a family fire escape plan twice a year. Keep a fire extinguisher in the kitchen and know how to use it. Never leave cooking unattended.'')
      (''How often should you test your smoke detectors?'')
      [''Every week'',
       ''Every month'',
       ''Every year'']
      (''Every month'')
      (None)
      (None),
    Module_init 3
      (''Seismic Safety Basics'')
      (''Secure your home and identify safe spots before an earthquake.'')
      (''Secure heavy furniture and appliances to walls, and store breakable items on low shelves. Identify safe spots in each room, like under sturdy tables or against interior walls. Practice drills so everyone knows where to go.'')
      (''Where is a safe place to be during an earthquake?'')
      [''Near exterior windows'',
       ''Under a sturdy table'',
       ''In a doorway'']
      (''Under a sturdy table'')
      (None)
      (None),
    Module_init 4
      (''First Aid Basics'')
      (''Understand essential first aid techniques.'')
      (''Learn how to perform CPR, treat minor cuts and burns, and recognize signs of shock. Always have a well'' @ [CHR 0xE2, CHR 0x80, CHR 0x91] @ ''stocked first aid kit and take a certified course to refresh your skills annually.'')
      (''Which of the following is recommended for treating a minor burn?'')
      [''Apply ice directly'',
       ''Use cool water and cover with a sterile gauze'',
       ''Pop any blisters'']
      (''Use cool water and cover with a sterile gauze'')
      (None)
      (None),
    Module_init 5
      (''Evacuation Planning'')
      (''Create and practice an evacuation plan.'')
      (''Identify multiple evacuation routes from your home and community. Choose meeting points and communication plans. Keep your vehicle fueled, and have a go'' @ [CHR 0xE2, CHR 0x80, CHR 0x91] @ ''bag ready with essential documents, cash, and supplies.'')
      (''Why is it important to have multiple evacuation routes?'')
      [''In case roads are blocked'',
       ''It isn'' @ [CHR 0xE2, CHR 0x80, CHR 0x99] @ ''t important'',
       ''To increase travel time'']
      (''In case roads are blocked'')
      (None)
      (None),
    Module_init 6
      (''Drop, Cover & Hold On'')
      (''Learn how to protect yourself during an earthquake.'')
      (''Earthquakes strike without warning. To protect yourself, follow the '' @ [CHR 0x27] @ ''Drop, Cover, and Hold On'' @ [CHR 0x27] @ '' procedure: drop to the ground before the quake drops you, take cover under a sturdy table or desk (or cover your head and neck with your arms if no shelter is available), and hold on until the shaking stops. Secure heavy items in your home, such as bookcases and appliances, to prevent them from falling. Prepare an emergency kit and practice drills with your family.'')
      (''What should you do during an earthquake?'')
      [''Run outside'',
       ''Drop, Cover, and Hold On'',
       ''Stand in a doorway'']
      (''Drop, Cover, and Hold On'')
      (Some (''earthquake.png''))
      (Some (''https://www.shakeout.org/dropcoverholdon/'')),
    Module_init 7
      (''Tsunami Preparedness'')
      (''Understand tsunami warning signs and how to respond quickly.'')
      (''If you are near the coast and feel strong or long shaking, hear a loud roar from the ocean, or notice the water suddenly recede, a tsunami could be coming. Have multiple ways to receive warnings (NOAA Weather Radio, text alerts) and know your community'' @ [CHR 0xE2, CHR 0x80, CHR 0x99] @ ''s evacuation routes to high ground. Create a family emergency plan, practice walking your evacuation routes, and prepare a portable disaster supplies kit.'')
      (''After feeling strong shaking near the coast, what should you do?'')
      [''Wait for an official alert'',
       ''Immediately go to high ground'',
       ''Call your neighbors'']
      (''Immediately go to high ground'')
      (Some (''tsunami.png''))
      (Some (''https://www.weather.gov/jetstream/tsunami'')),
    Module_init 8
      (''Urban Survival Basics'')
      (''Tips for staying safe and prepared in city environments.'')
      (''Urban emergencies can include power outages, civil unrest, and infrastructure failures. Maintain situational awareness and have a family communication plan. Keep a get'' @ [CHR 0xE2, CHR 0x80, CHR 0x91] @ ''home bag with water, snacks, first aid supplies, and sturdy shoes. Know how to shut off utilities and identify safe shelter locations. Follow guidance from local authorities and stay informed through reliable news sources.'')
      (''Which of the following is NOT recommended for urban survival?'')
      [''Keep a get-home bag'',
       ''Have a family communication plan'',
       ''Ignore local authorities'']
      (''Ignore local authorities'')
      (Some (''urban.png''))
      (Some (''https://www.ready.gov/power-outages'')),
    Module_init 9
      (''Rural Survival Basics'')
      (''Fundamental skills for survival in wilderness and rural areas.'')
      (''In rural or wilderness settings, your priorities are shelter, water, fire, and food. Learn to locate and purify water from natural sources, build a simple shelter, and start a fire safely. Carry a map and compass, and know basic navigation. Understand local flora and fauna, and always let someone know your travel plans before venturing out.'')
      (''What is the priority when lost in a rural wilderness?'')
      [''Posting on social media'',
       ''Finding a safe water source'',
       ''Collecting souvenirs'']
      (''Finding a safe water source'')
      (Some (''rural.png''))
      (Some (''https://www.ready.gov/wilderness''))]"

text \<open>\<^verbatim>\<open>next((m for m in modules if m.id == module_id), None)\<close>\<close>

definition get_module :: "int \<Rightarrow> Module option" where
  "get_module module_id = find (\<lambda>m. mod_id m = module_id) modules"


subsection \<open>Data model: the SQLite store\<close>

text \<open>
  The two tables created by \<^verbatim>\<open>init_db\<close>.  Both have an
  \<^verbatim>\<open>INTEGER PRIMARY KEY AUTOINCREMENT\<close> key: the store keeps, per table, the largest key
  it has ever handed out (\<open>user_profiles_seq\<close>, \<open>quiz_results_seq\<close>) and gives a new row
  the next one.  The handlers never insert a key of their own and never delete, so that
  counter bounds every key of the table.  The \<^verbatim>\<open>timestamp\<close> column, filled by the store
  from the wall clock, is left out.
\<close>

record user_profile =
  up_id :: int
  family_size :: int
  location :: string
  skill_level :: string

record quiz_result =
  qr_id :: int
  user_id :: "int option"
  module_id :: int
  score :: int

record database =
  user_profiles :: "user_profile list"
  user_profiles_seq :: int
  quiz_results :: "quiz_result list"
  quiz_results_seq :: int

text \<open>
  \<^verbatim>\<open>init_db\<close>: \<^verbatim>\<open>CREATE TABLE IF NOT EXISTS\<close> for both tables.  The argument is the
  database file as found at start-up: absent, or holding the tables already.
\<close>

fun init_db :: "database option \<Rightarrow> database" where
  "init_db None =
     \<lparr>user_profiles = [], user_profiles_seq = 0, quiz_results = [], quiz_results_seq = 0\<rparr>"
| "init_db (Some db) = db"

text \<open>
  A store operation of a handler is \<^verbatim>\<open>connect\<close>, \<^verbatim>\<open>execute\<close>, \<^verbatim>\<open>commit\<close>,
  \<^verbatim>\<open>close\<close>, and each of them may raise.  Which one does, if any, is an input of the
  model.  Besides such faults \<^verbatim>\<open>execute\<close> raises by itself when an integer parameter
  does not fit SQLite's 64-bit \<^verbatim>\<open>INTEGER\<close> (\<^verbatim>\<open>OverflowError\<close>) and when the table's keys
  are used up.  A row that was inserted but not committed is not in the store.
\<close>

datatype db_fault = NoFault | ConnectFault | ExecuteFault | CommitFault | CloseFault

definition max_rowid :: int where
  "max_rowid = 9223372036854775807"

definition fits_int64 :: "int \<Rightarrow> bool" where
  "fits_int64 n = (- 9223372036854775808 \<le> n \<and> n \<le> 9223372036854775807)"

text \<open>
  The body of the \<^verbatim>\<open>try\<close> block of \<^verbatim>\<open>submit_onboarding\<close> from \<^verbatim>\<open>sqlite3.connect\<close>
  on.  The result is the store afterwards and the value of \<^verbatim>\<open>user_id\<close> when the block is
  left, normally or by an exception: \<^verbatim>\<open>user_id = cur.lastrowid\<close> comes before
  \<^verbatim>\<open>conn.commit()\<close>.
\<close>

definition insert_user_profile ::
  "db_fault \<Rightarrow> database \<Rightarrow> int \<Rightarrow> string \<Rightarrow> string \<Rightarrow> database \<times> int option" where
  "insert_user_profile flt db fam loc skill =
     (if flt = ConnectFault then (db, None)
      else if flt = ExecuteFault \<or> \<not> fits_int64 fam \<or> max_rowid \<le> user_profiles_seq db
        then (db, None)
      else
        let lastrowid = user_profiles_seq db + 1 in
        if flt = CommitFault then (db, Some lastrowid)
        else
          (db\<lparr>user_profiles := user_profiles db @
                 [\<lparr>up_id = lastrowid, family_size = fam, location = loc, skill_level = skill\<rparr>],
              user_profiles_seq := lastrowid\<rparr>,
           Some lastrowid))"

text \<open>The same for the \<^verbatim>\<open>INSERT INTO quiz_results\<close> of \<^verbatim>\<open>submit_quiz\<close>.\<close>

definition insert_quiz_result :: "db_fault \<Rightarrow> database \<Rightarrow> int \<Rightarrow> int \<Rightarrow> int \<Rightarrow> database" where
  "insert_quiz_result flt db uid mid sc =
     (if flt = ConnectFault then db
      else if flt = ExecuteFault \<or> \<not> fits_int64 uid \<or> \<not> fits_int64 mid \<or> \<not> fits_int64 sc
              \<or> max_rowid \<le> quiz_results_seq db
        then db
      else if flt = CommitFault then db
      else
        db\<lparr>quiz_results := quiz_results db @
              [\<lparr>qr_id = quiz_results_seq db + 1, user_id = Some uid, module_id = mid, score = sc\<rparr>],
           quiz_results_seq := quiz_results_seq db + 1\<rparr>)"

subsection \<open>Requests and responses\<close>

text \<open>
  Of a request the handlers read \<^verbatim>\<open>query_params.get\<close> and \<^verbatim>\<open>cookies.get\<close>, both
  lookups of a string by a string.
\<close>

record request =
  query_params :: "string \<rightharpoonup> string"
  cookies :: "string \<rightharpoonup> string"

record set_cookie =
  key :: string
  cvalue :: string
  max_age :: int
  httponly :: bool

datatype template_context =
    ModuleDetail Module
  | QuizResult Module string bool

datatype response =
    RedirectResponse string nat "set_cookie option"
  | TemplateResponse string template_context

datatype http_error = HTTPException nat string

subsection \<open>The handlers\<close>

text \<open>\<^verbatim>\<open>GET /onboarding\<close>.\<close>

definition submit_onboarding :: "db_fault \<Rightarrow> database \<Rightarrow> request \<Rightarrow> database \<times> response" where
  "submit_onboarding flt db req =
     (let family_size_raw = query_params req ''family_size'';
          loc = query_params req ''location'';
          skill = query_params req ''skill_level'';
          (db', uid) =
            (if truthy family_size_raw \<and> truthy loc \<and> truthy skill then
               (case py_int (the family_size_raw) of
                  None \<Rightarrow> (db, None)
                | Some fam \<Rightarrow>
                    if fam > 0 then insert_user_profile flt db fam (the loc) (the skill)
                    else (db, None))
             else (db, None))
      in (db',
          RedirectResponse ''/modules'' 303
            (case uid of
               None \<Rightarrow> None
             | Some u \<Rightarrow>
                 Some \<lparr>key = ''user_id'', cvalue = py_str u,
                       max_age = 60 * 60 * 24 * 30, httponly = True\<rparr>)))"

text \<open>\<^verbatim>\<open>GET /modules/{module_id}\<close>.\<close>

definition module_detail :: "int \<Rightarrow> request \<Rightarrow> http_error + response" where
  "module_detail mid req =
     (case get_module mid of
        None \<Rightarrow> Inl (HTTPException 404 ''Module not found'')
      | Some m \<Rightarrow> Inr (TemplateResponse ''module_detail.html'' (ModuleDetail m)))"

text \<open>\<^verbatim>\<open>GET /modules/{module_id}/quiz\<close>.\<close>

definition submit_quiz ::
  "db_fault \<Rightarrow> database \<Rightarrow> int \<Rightarrow> request \<Rightarrow> database \<times> (http_error + response)" where
  "submit_quiz flt db mid req =
     (case get_module mid of
        None \<Rightarrow> (db, Inl (HTTPException 404 ''Module not found''))
      | Some m \<Rightarrow>
          let selected_option = query_params req ''selected_option'' in
          if \<not> truthy selected_option then
            (db, Inr (RedirectResponse (''/modules/'' @ py_str mid) 303 None))
          else
            let correct = (the selected_option = answer (question m));
                db' =
                  (case cookies req ''user_id'' of
                     None \<Rightarrow> db
                   | Some user_id_str \<Rightarrow>
                       (case py_int user_id_str of
                          None \<Rightarrow> db
                        | Some uid \<Rightarrow>
                            insert_quiz_result flt db uid mid (if correct then 1 else 0)))
            in (db', Inr (TemplateResponse ''quiz_result.html''
                            (QuizResult m (the selected_option) correct))))"

text \<open>
  A visit is a sequence of requests to the two handlers that write; the other routes
  read the catalog only.
\<close>

datatype event =
    Onboarding db_fault request
  | Quiz db_fault int request

fun step :: "database \<Rightarrow> event \<Rightarrow> database" where
  "step db (Onboarding flt req) = fst (submit_onboarding flt db req)"
| "step db (Quiz flt mid req) = fst (submit_quiz flt db mid req)"

definition run :: "database \<Rightarrow> event list \<Rightarrow> database" where
  "run db evs = foldl step db evs"

text \<open>
  A store the handlers can meet: every profile key is positive, at most the table's
  counter, and taken once.
\<close>

definition db_wf :: "database \<Rightarrow> bool" where
  "db_wf db =
     (0 \<le> user_profiles_seq db \<and>
      list_all (\<lambda>p. 0 < up_id p \<and> up_id p \<le> user_profiles_seq db) (user_profiles db) \<and>
      distinct (map up_id (user_profiles db)))"

subsection \<open>Auxiliary definitions\<close>

text \<open>The number a digit string denotes, read from the left with a running value.\<close>

definition digits_value :: "nat \<Rightarrow> string \<Rightarrow> nat" where
  "digits_value acc ds = foldl (\<lambda>a c. a * 10 + digit_val c) acc ds"

text \<open>A request given by its query parameters and its cookies, each key at most once.\<close>

definition request_of :: "(string \<times> string) list \<Rightarrow> (string \<times> string) list \<Rightarrow> request" where
  "request_of qs cs = \<lparr>query_params = map_of qs, cookies = map_of cs\<rparr>"

text \<open>
  The onboarding submission of a household of three in Portland, the profile row it
  produces under a given key, and the session cookie carrying a given value.
\<close>

definition example_onboarding :: request where
  "example_onboarding =
     request_of [(''family_size'', ''3''), (''location'', ''Portland''),
                 (''skill_level'', ''beginner'')] []"

definition example_profile :: "int \<Rightarrow> user_profile" where
  "example_profile i =
     \<lparr>up_id = i, family_size = 3, location = ''Portland'', skill_level = ''beginner''\<rparr>"

definition session_cookie :: "string \<Rightarrow> set_cookie" where
  "session_cookie v = \<lparr>key = ''user_id'', cvalue = v, max_age = 2592000, httponly = True\<rparr>"

section \<open>Properties\<close>

subsection \<open>Integers and their decimal strings\<close>

lemma of_char_digit_char: "d < 10 \<Longrightarrow> (of_char (digit_char d) :: nat) = 48 + d"
  by (simp add: digit_char_def)

lemma is_digit_digit_char: "d < 10 \<Longrightarrow> is_digit (digit_char d)"
  by (simp add: is_digit_def of_char_digit_char)

lemma digit_val_digit_char: "d < 10 \<Longrightarrow> digit_val (digit_char d) = d"
  by (simp add: digit_val_def of_char_digit_char)

lemma digits_all_digit: "list_all is_digit (digits n)"
proof (induction n rule: digits.induct)
  case (1 n)
  show ?case
  proof (cases "n < 10")
    case True
    then show ?thesis by (subst digits.simps) (simp add: is_digit_digit_char)
  next
    case False
    with 1 show ?thesis by (subst digits.simps) (simp add: is_digit_digit_char)
  qed
qed

lemma digits_not_Nil: "digits n \<noteq> []"
  by (subst digits.simps) simp

lemma digits_value_digits: "digits_value 0 (digits n) = n"
proof (induction n rule: digits.induct)
  case (1 n)
  show ?case
  proof (cases "n < 10")
    case True
    then show ?thesis by (subst digits.simps) (simp add: digits_value_def digit_val_digit_char)
  next
    case False
    with 1 have "digits_value 0 (digits (n div 10)) = n div 10" by simp
    with False show ?thesis
      by (subst digits.simps) (simp add: digits_value_def digit_val_digit_char)
  qed
qed

lemma digits_length: "n < 10 ^ k \<Longrightarrow> 0 < k \<Longrightarrow> length (digits n) \<le> k"
proof (induction n arbitrary: k rule: digits.induct)
  case (1 n)
  show ?case
  proof (cases "n < 10")
    case True
    with 1(3) show ?thesis by (subst digits.simps) simp
  next
    case False
    obtain j where k: "k = Suc j" using 1(3) by (cases k) auto
    from False 1(2) have "0 < j" unfolding k by (cases j) auto
    moreover from 1(2) have "n div 10 < 10 ^ j" unfolding k by (simp add: less_mult_imp_div_less)
    ultimately have "length (digits (n div 10)) \<le> j" using 1(1) [OF False] by simp
    with False show ?thesis unfolding k by (subst digits.simps) simp
  qed
qed

lemma scan_digits_all_digit:
  "list_all is_digit ds \<Longrightarrow>
     scan_digits False acc cnt ds = Some (digits_value acc ds, cnt + length ds, [])"
  by (induction ds arbitrary: acc cnt) (simp_all add: digits_value_def)

lemma parse_unsigned_digits:
  assumes "length (digits n) \<le> 640"
  shows "parse_unsigned (digits n) = Some n"
proof -
  obtain c cs where ds: "digits n = c # cs"
    using digits_not_Nil [of n] by (cases "digits n") auto
  have all: "is_digit c" "list_all is_digit cs"
    using digits_all_digit [of n] by (simp_all add: ds)
  have "digits_value (digit_val c) cs = digits_value 0 (c # cs)"
    by (simp add: digits_value_def)
  also have "\<dots> = n" using digits_value_digits [of n] by (simp add: ds)
  finally have v: "digits_value (digit_val c) cs = n" .
  from assms have len: "length cs \<le> 639" by (simp add: ds)
  show ?thesis
    using len
    by (simp add: parse_unsigned_def ds all scan_digits_all_digit v
        str_digits_check_threshold_def)
qed

lemma is_digit_not_space: "is_digit c \<Longrightarrow> \<not> is_space c"
  by (auto simp: is_digit_def is_space_def Let_def)

lemma is_digit_not_sign: "is_digit c \<Longrightarrow> c \<noteq> CHR ''-'' \<and> c \<noteq> CHR ''+''"
  by (auto simp: is_digit_def)

lemma is_digit_ascii: "is_digit c \<Longrightarrow> (of_char c :: nat) < 128"
  by (simp add: is_digit_def Let_def)

lemma utf8_decode_ascii:
  "list_all (\<lambda>c. (of_char c :: nat) < 128) s \<Longrightarrow> utf8_decode s = Some (map of_char s)"
  by (induction s) simp_all

lemma py_int_ascii:
  assumes "list_all (\<lambda>c. (of_char c :: nat) < 128) s"
  shows "py_int s = long_from_string s"
proof -
  from assms have "list_all (\<lambda>ch. ch < 128) (map of_char s :: nat list)"
    by (simp add: list_all_iff)
  then have "transform_decimal_and_space (map of_char s) = map of_char s"
    by (simp add: transform_decimal_and_space_def)
  moreover have "map char_of (map of_char s :: nat list) = s"
    by (simp add: comp_def)
  ultimately show ?thesis
    by (simp add: py_int_def utf8_decode_ascii [OF assms])
qed

lemma py_str_ascii: "list_all (\<lambda>c. (of_char c :: nat) < 128) (py_str n)"
proof -
  have "list_all (\<lambda>c. (of_char c :: nat) < 128) (digits m)" for m
    using digits_all_digit [of m] by (auto simp: list_all_iff is_digit_ascii)
  then show ?thesis by (simp add: py_str_def)
qed

lemma long_from_string_py_str:
  assumes "\<bar>n\<bar> < 10 ^ k" and "0 < k" and "k \<le> 640"
  shows "long_from_string (py_str n) = Some n"
proof -
  obtain c cs where ds: "digits (nat \<bar>n\<bar>) = c # cs"
    using digits_not_Nil [of "nat \<bar>n\<bar>"] by (cases "digits (nat \<bar>n\<bar>)") auto
  have c: "is_digit c" using digits_all_digit [of "nat \<bar>n\<bar>"] by (simp add: ds)
  from assms(1) have "nat \<bar>n\<bar> < 10 ^ k"
    by (metis nat_less_iff abs_ge_zero of_nat_numeral of_nat_power)
  then have "length (digits (nat \<bar>n\<bar>)) \<le> k" using assms(2) by (rule digits_length)
  with assms(3) have "length (digits (nat \<bar>n\<bar>)) \<le> 640" by simp
  then have pu: "parse_unsigned (c # cs) = Some (nat \<bar>n\<bar>)"
    using parse_unsigned_digits [of "nat \<bar>n\<bar>"] by (simp add: ds)
  show ?thesis
  proof (cases "n < 0")
    case True
    then have "py_str n = CHR ''-'' # c # cs"
      using ds by (simp add: py_str_def abs_if)
    moreover have "\<not> is_space CHR ''-''" by (simp add: is_space_def)
    ultimately show ?thesis using True pu by (simp add: long_from_string_def)
  next
    case False
    then have "py_str n = c # cs"
      using ds by (simp add: py_str_def abs_if)
    then show ?thesis
      using False pu c is_digit_not_space [OF c] is_digit_not_sign [OF c]
      by (simp add: long_from_string_def)
  qed
qed

lemma py_int_py_str:
  assumes "\<bar>n\<bar> < 10 ^ k" and "0 < k" and "k \<le> 640"
  shows "py_int (py_str n) = Some n"
  using py_int_ascii [OF py_str_ascii, of n] long_from_string_py_str [OF assms] by simp

lemma py_int_rowid:
  assumes "- 1 \<le> n" and "n \<le> max_rowid"
  shows "py_int (py_str n) = Some n"
proof -
  from assms have "\<bar>n\<bar> < 10 ^ 19" by (simp add: max_rowid_def)
  then show ?thesis by (rule py_int_py_str) simp_all
qed

lemma py_int_examples:
  "py_int ''0'' = Some 0" "py_int ''-2'' = Some (- 2)" "py_int ''three'' = None"
  "py_int ''3.5'' = None" "py_int ''3'' = Some 3" "py_int ''abc'' = None"
  by (simp_all add: py_int_ascii long_from_string_def parse_unsigned_def is_space_def
      is_digit_def digit_val_def str_digits_check_threshold_def)

lemma py_int_unicode_examples:
  "py_int [CHR 0xD9, CHR 0xA3] = Some 3"
  "py_int [CHR 0xC2, CHR 0xA0, CHR ''3''] = Some 3"
  "py_int [CHR 0x1C, CHR ''3''] = None"
  "py_int [CHR 0xE4, CHR 0xB8, CHR 0x89] = None"
  by (simp_all add: py_int_def is_cont_def cont_bits_def transform_decimal_and_space_def
      is_unicode_space_def unicode_decimal_def decimal_zeros_def char_of_def bit_0
      long_from_string_def parse_unsigned_def is_space_def
      is_digit_def digit_val_def str_digits_check_threshold_def)

lemma py_str_1: "py_str 1 = ''1''"
  by code_simp

lemma py_str_2: "py_str 2 = ''2''"
  by code_simp

lemma fits_int64_small: "- 1 \<le> n \<Longrightarrow> n \<le> max_rowid \<Longrightarrow> fits_int64 n"
  by (simp add: fits_int64_def max_rowid_def)

subsection \<open>The catalog\<close>

lemma modules_ids: "map mod_id modules = [1, 2, 3, 4, 5, 6, 7, 8, 9]"
  by (simp add: modules_def Module_init_def)

lemma get_module_Some:
  "get_module mid = Some m \<Longrightarrow> mod_id m = mid \<and> m \<in> set modules"
  by (auto simp: get_module_def find_Some_iff in_set_conv_nth)

lemma get_module_range:
  assumes "get_module mid = Some m" shows "1 \<le> mid \<and> mid \<le> 9"
proof -
  from get_module_Some [OF assms] have "mid \<in> set (map mod_id modules)" by force
  then show ?thesis unfolding modules_ids by auto
qed

lemma get_module_None:
  "mid \<notin> set (map mod_id modules) \<Longrightarrow> get_module mid = None"
  by (auto simp: get_module_def find_None_iff)

lemma get_module_1:
  "get_module 1 = Some (hd modules)"
  by (simp add: get_module_def modules_def Module_init_def)

lemma get_module_999: "get_module 999 = None"
  by (rule get_module_None) (simp add: modules_ids)

lemma answer_1: "answer (question (hd modules)) = ''One gallon''"
  by (simp add: modules_def Module_init_def)

text \<open>
  C8. Catalog integrity: the answer of every module of the catalog is one of that
  module's options.
\<close>

theorem catalog_answer_in_options:
  "\<forall>m \<in> set modules. answer (question m) \<in> set (options (question m))"
  by (simp add: modules_def Module_init_def)

theorem catalog_answer_in_options_witness:
  "hd modules \<in> set modules \<and>
   answer (question (hd modules)) = ''One gallon'' \<and>
   ''One gallon'' \<in> set (options (question (hd modules)))"
proof -
  have m: "hd modules \<in> set modules"
    by (simp add: modules_def)
  show ?thesis
    using catalog_answer_in_options [THEN bspec, OF m] m by (simp add: answer_1)
qed

subsection \<open>The store\<close>

lemma insert_user_profile_cases:
  "insert_user_profile flt db fam loc skill = (db, None) \<or>
   (insert_user_profile flt db fam loc skill = (db, Some (user_profiles_seq db + 1)) \<and>
      flt = CommitFault \<and> user_profiles_seq db < max_rowid) \<or>
   (insert_user_profile flt db fam loc skill =
      (db\<lparr>user_profiles := user_profiles db @
             [\<lparr>up_id = user_profiles_seq db + 1, family_size = fam, location = loc,
               skill_level = skill\<rparr>],
          user_profiles_seq := user_profiles_seq db + 1\<rparr>,
       Some (user_profiles_seq db + 1)) \<and>
      flt \<noteq> CommitFault \<and> user_profiles_seq db < max_rowid)"
  by (simp add: insert_user_profile_def Let_def)

lemma insert_quiz_result_cases:
  assumes "fits_int64 uid" and "fits_int64 mid" and "fits_int64 sc"
  shows "insert_quiz_result flt db uid mid sc =
     (if (flt = NoFault \<or> flt = CloseFault) \<and> quiz_results_seq db < max_rowid
      then db\<lparr>quiz_results := quiz_results db @
                 [\<lparr>qr_id = quiz_results_seq db + 1, user_id = Some uid, module_id = mid,
                   score = sc\<rparr>],
              quiz_results_seq := quiz_results_seq db + 1\<rparr>
      else db)"
  using assms by (cases flt) (simp_all add: insert_quiz_result_def)

lemma insert_quiz_result_profiles:
  "user_profiles (insert_quiz_result flt db uid mid sc) = user_profiles db \<and>
   user_profiles_seq (insert_quiz_result flt db uid mid sc) = user_profiles_seq db"
  by (simp add: insert_quiz_result_def)

lemma db_wf_append:
  assumes "db_wf db"
  shows "db_wf (db\<lparr>user_profiles := user_profiles db @
                  [\<lparr>up_id = user_profiles_seq db + 1, family_size = fam, location = loc,
                    skill_level = skill\<rparr>],
                user_profiles_seq := user_profiles_seq db + 1\<rparr>)"
proof -
  from assms have s: "0 \<le> user_profiles_seq db"
    and b: "\<forall>p \<in> set (user_profiles db). 0 < up_id p \<and> up_id p \<le> user_profiles_seq db"
    and d: "distinct (map up_id (user_profiles db))"
    by (simp_all add: db_wf_def list_all_iff)
  from b have fresh: "user_profiles_seq db + 1 \<notin> up_id ` set (user_profiles db)"
    by fastforce
  from b have b': "\<forall>p \<in> set (user_profiles db). 0 < up_id p \<and> up_id p \<le> user_profiles_seq db + 1"
    by fastforce
  from s b' d fresh show ?thesis
    by (simp add: db_wf_def list_all_iff)
qed

lemma db_wf_init: "db_wf (init_db None)"
  by (simp add: db_wf_def)

subsection \<open>The quiz handler\<close>

lemma submit_quiz_found:
  assumes "get_module mid = Some m"
    and "query_params req ''selected_option'' = Some sel" and "sel \<noteq> []"
  shows "submit_quiz flt db mid req =
     ((case cookies req ''user_id'' of
         None \<Rightarrow> db
       | Some s \<Rightarrow>
           (case py_int s of
              None \<Rightarrow> db
            | Some uid \<Rightarrow>
                insert_quiz_result flt db uid mid (if sel = answer (question m) then 1 else 0))),
      Inr (TemplateResponse ''quiz_result.html'' (QuizResult m sel (sel = answer (question m)))))"
  using assms by (simp add: submit_quiz_def Let_def)

lemma submit_quiz_no_selection:
  assumes "get_module mid = Some m" and "\<not> truthy (query_params req ''selected_option'')"
  shows "submit_quiz flt db mid req =
           (db, Inr (RedirectResponse (''/modules/'' @ py_str mid) 303 None))"
  using assms by (simp add: submit_quiz_def Let_def)

lemma submit_quiz_not_found:
  assumes "get_module mid = None"
  shows "submit_quiz flt db mid req = (db, Inl (HTTPException 404 ''Module not found''))"
  using assms by (simp add: submit_quiz_def)

lemma submit_quiz_profiles:
  "user_profiles (fst (submit_quiz flt db mid req)) = user_profiles db \<and>
   user_profiles_seq (fst (submit_quiz flt db mid req)) = user_profiles_seq db"
  by (simp add: submit_quiz_def Let_def insert_quiz_result_profiles split: option.splits)

lemma quiz_request_selected:
  "query_params (request_of [(''selected_option'', s)] cs) ''selected_option'' = Some s"
  by (simp add: request_of_def)

text \<open>
  C2. On an existing module with an option selected, the verdict handed to the result page
  is the equality of the selected string with the module's answer, character by
  character: no case folding, no trimming.  For module 1 the option "One gallon" is
  correct and "Two gallons" is not; neither is "one gallon" or "One gallon" followed by a
  space.
\<close>

theorem quiz_correct_is_exact_equality:
  "(get_module mid = Some m \<and> query_params req ''selected_option'' = Some sel \<and> sel \<noteq> [] \<longrightarrow>
      snd (submit_quiz flt db mid req) =
        Inr (TemplateResponse ''quiz_result.html'' (QuizResult m sel (sel = answer (question m)))))
   \<and> (\<exists>m. get_module 1 = Some m \<and> answer (question m) = ''One gallon'' \<and>
        snd (submit_quiz flt db 1 (request_of [(''selected_option'', ''One gallon'')] cs)) =
          Inr (TemplateResponse ''quiz_result.html'' (QuizResult m ''One gallon'' True)) \<and>
        snd (submit_quiz flt db 1 (request_of [(''selected_option'', ''Two gallons'')] cs)) =
          Inr (TemplateResponse ''quiz_result.html'' (QuizResult m ''Two gallons'' False)) \<and>
        snd (submit_quiz flt db 1 (request_of [(''selected_option'', ''one gallon'')] cs)) =
          Inr (TemplateResponse ''quiz_result.html'' (QuizResult m ''one gallon'' False)) \<and>
        snd (submit_quiz flt db 1 (request_of [(''selected_option'', ''One gallon '')] cs)) =
          Inr (TemplateResponse ''quiz_result.html'' (QuizResult m ''One gallon '' False)))"
proof (intro conjI impI)
  assume "get_module mid = Some m \<and> query_params req ''selected_option'' = Some sel \<and> sel \<noteq> []"
  then show "snd (submit_quiz flt db mid req) =
        Inr (TemplateResponse ''quiz_result.html'' (QuizResult m sel (sel = answer (question m))))"
    by (simp add: submit_quiz_found)
next
  have q: "\<And>s. query_params (request_of [(''selected_option'', s)] cs) ''selected_option'' = Some s"
    by (simp add: request_of_def)
  have r: "\<And>s. s \<noteq> [] \<Longrightarrow> snd (submit_quiz flt db 1 (request_of [(''selected_option'', s)] cs)) =
      Inr (TemplateResponse ''quiz_result.html'' (QuizResult (hd modules) s (s = ''One gallon'')))"
    using submit_quiz_found [OF get_module_1 q] by (simp add: answer_1)
  show "\<exists>m. get_module 1 = Some m \<and> answer (question m) = ''One gallon'' \<and>
        snd (submit_quiz flt db 1 (request_of [(''selected_option'', ''One gallon'')] cs)) =
          Inr (TemplateResponse ''quiz_result.html'' (QuizResult m ''One gallon'' True)) \<and>
        snd (submit_quiz flt db 1 (request_of [(''selected_option'', ''Two gallons'')] cs)) =
          Inr (TemplateResponse ''quiz_result.html'' (QuizResult m ''Two gallons'' False)) \<and>
        snd (submit_quiz flt db 1 (request_of [(''selected_option'', ''one gallon'')] cs)) =
          Inr (TemplateResponse ''quiz_result.html'' (QuizResult m ''one gallon'' False)) \<and>
        snd (submit_quiz flt db 1 (request_of [(''selected_option'', ''One gallon '')] cs)) =
          Inr (TemplateResponse ''quiz_result.html'' (QuizResult m ''One gallon '' False))"
    by (rule exI [of _ "hd modules"]) (simp add: get_module_1 answer_1 r)
qed

theorem quiz_correct_is_exact_equality_witness:
  "get_module 1 = Some (hd modules) \<and>
   query_params (request_of [(''selected_option'', ''Half a gallon'')] []) ''selected_option'' = Some ''Half a gallon'' \<and>
   snd (submit_quiz NoFault (init_db None) 1 (request_of [(''selected_option'', ''Half a gallon'')] [])) =
     Inr (TemplateResponse ''quiz_result.html'' (QuizResult (hd modules) ''Half a gallon'' False))"
proof -
  have q: "query_params (request_of [(''selected_option'', ''Half a gallon'')] []) ''selected_option'' = Some ''Half a gallon''"
    by (simp add: request_of_def)
  show ?thesis
    using quiz_correct_is_exact_equality
            [of 1 "hd modules" "request_of [(''selected_option'', ''Half a gallon'')] []" "''Half a gallon''" NoFault "init_db None"]
    by (simp add: get_module_1 answer_1 q)
qed

text \<open>
  C6. A quiz request on an existing module whose \<^verbatim>\<open>selected_option\<close> is absent or
  empty is answered by a redirect (303) to \<^verbatim>\<open>/modules/{id}\<close> of the same module, with
  no cookie and no error, and the store is returned as it was: no quiz result is written.
\<close>

theorem quiz_without_selection_redirects:
  assumes "get_module mid = Some m"
    and "query_params req ''selected_option'' = None \<or>
         query_params req ''selected_option'' = Some []"
  shows "submit_quiz flt db mid req =
           (db, Inr (RedirectResponse (''/modules/'' @ py_str mid) 303 None))"
proof -
  from assms(2) have "\<not> truthy (query_params req ''selected_option'')" by auto
  with assms(1) show ?thesis by (rule submit_quiz_no_selection)
qed

theorem quiz_without_selection_redirects_witness:
  "get_module 1 = Some (hd modules) \<and>
   query_params (request_of [] [(''user_id'', ''1'')]) ''selected_option'' = None \<and>
   submit_quiz NoFault (init_db None) 1 (request_of [] [(''user_id'', ''1'')]) =
     (init_db None, Inr (RedirectResponse ''/modules/1'' 303 None)) \<and>
   query_params (request_of [(''selected_option'', [])] []) ''selected_option'' = Some [] \<and>
   submit_quiz NoFault (init_db None) 1 (request_of [(''selected_option'', [])] []) =
     (init_db None, Inr (RedirectResponse ''/modules/1'' 303 None))"
proof -
  have q1: "query_params (request_of [] [(''user_id'', ''1'')]) ''selected_option'' = None"
    by (simp add: request_of_def)
  have q2: "query_params (request_of [(''selected_option'', [])] []) ''selected_option'' = Some []"
    by (simp add: request_of_def)
  show ?thesis
    using quiz_without_selection_redirects
            [OF get_module_1 disjI1 [OF q1], of NoFault "init_db None"]
          quiz_without_selection_redirects
            [OF get_module_1 disjI2 [OF q2], of NoFault "init_db None"]
    by (simp only: get_module_1 q1 q2 py_str_1 append.simps simp_thms)
qed

text \<open>
  C7. For an integer that is the id of no module of the catalog, the module page and the
  quiz submission both fail with the 404 exception "Module not found", and the store is
  untouched; so does \<^verbatim>\<open>/modules/999/quiz?selected_option=X\<close>.
\<close>

theorem unknown_module_not_found:
  "(mid \<notin> set (map mod_id modules) \<longrightarrow>
      module_detail mid req = Inl (HTTPException 404 ''Module not found'') \<and>
      submit_quiz flt db mid req = (db, Inl (HTTPException 404 ''Module not found''))) \<and>
   submit_quiz flt db 999 (request_of [(''selected_option'', ''X'')] cs) =
     (db, Inl (HTTPException 404 ''Module not found''))"
proof (intro conjI impI)
  assume "mid \<notin> set (map mod_id modules)"
  then have n: "get_module mid = None" by (rule get_module_None)
  then show "module_detail mid req = Inl (HTTPException 404 ''Module not found'')"
    by (simp add: module_detail_def)
  from n show "submit_quiz flt db mid req = (db, Inl (HTTPException 404 ''Module not found''))"
    by (rule submit_quiz_not_found)
next
  show "submit_quiz flt db 999 (request_of [(''selected_option'', ''X'')] cs) =
     (db, Inl (HTTPException 404 ''Module not found''))"
    using get_module_999 by (rule submit_quiz_not_found)
qed

theorem unknown_module_not_found_witness:
  "(0::int) \<notin> set (map mod_id modules) \<and>
   module_detail 0 (request_of [] []) = Inl (HTTPException 404 ''Module not found'') \<and>
   submit_quiz NoFault (init_db None) 0 (request_of [(''selected_option'', ''One gallon'')] []) =
     (init_db None, Inl (HTTPException 404 ''Module not found''))"
proof -
  have n: "(0::int) \<notin> set (map mod_id modules)"
    by (simp add: modules_ids)
  show ?thesis
    using unknown_module_not_found
            [of 0 "request_of [] []" NoFault "init_db None" "[]"]
          unknown_module_not_found
            [of 0 "request_of [(''selected_option'', ''One gallon'')] []" NoFault "init_db None" "[]"]
          n
    by simp
qed

text \<open>
  C10. The quiz handler looks the module up before it looks at the selection: for an id
  outside the catalog the outcome is the 404 exception whatever the request holds, also
  when no option is selected, and never a redirect.
\<close>

theorem quiz_existence_check_first:
  assumes "mid \<notin> set (map mod_id modules)"
  shows "snd (submit_quiz flt db mid req) = Inl (HTTPException 404 ''Module not found'') \<and>
         snd (submit_quiz flt db mid req) \<noteq>
           Inr (RedirectResponse (''/modules/'' @ py_str mid) 303 None) \<and>
         (\<forall>url st ck. snd (submit_quiz flt db mid req) \<noteq> Inr (RedirectResponse url st ck))"
proof -
  have "get_module mid = None" using assms by (rule get_module_None)
  then have "submit_quiz flt db mid req = (db, Inl (HTTPException 404 ''Module not found''))"
    by (rule submit_quiz_not_found)
  then show ?thesis by simp
qed

theorem quiz_existence_check_first_witness:
  "(999::int) \<notin> set (map mod_id modules) \<and>
   query_params (request_of [] []) ''selected_option'' = None \<and>
   snd (submit_quiz NoFault (init_db None) 999 (request_of [] [])) =
     Inl (HTTPException 404 ''Module not found'')"
proof -
  have n: "(999::int) \<notin> set (map mod_id modules)"
    by (simp add: modules_ids)
  have q: "query_params (request_of [] []) ''selected_option'' = None"
    by (simp add: request_of_def)
  show ?thesis
    using quiz_existence_check_first [OF n, of NoFault "init_db None" "request_of [] []"] n q
    by simp
qed

text \<open>
  C4. On an existing module with an option selected the quiz handler always returns the
  result page with the module and the verdict, never an exception: the response under any
  storage fault equals the response without fault, and equals the response to the same
  request with any other cookies (so an unparsable cookie shows the same page as a good
  one).  A fault in \<^verbatim>\<open>connect\<close>, \<^verbatim>\<open>execute\<close> or \<^verbatim>\<open>commit\<close> leaves the store as it
  was.
\<close>

theorem quiz_fault_swallowed:
  assumes "get_module mid = Some m"
    and "query_params req ''selected_option'' = Some sel" and "sel \<noteq> []"
  shows "snd (submit_quiz flt db mid req) =
           Inr (TemplateResponse ''quiz_result.html''
                  (QuizResult m sel (sel = answer (question m)))) \<and>
         snd (submit_quiz flt db mid req) = snd (submit_quiz NoFault db mid req) \<and>
         snd (submit_quiz flt db mid req) = snd (submit_quiz NoFault db (mid) (req\<lparr>cookies := ck\<rparr>)) \<and>
         (flt = ConnectFault \<or> flt = ExecuteFault \<or> flt = CommitFault \<longrightarrow>
            fst (submit_quiz flt db mid req) = db)"
proof -
  have q: "query_params (req\<lparr>cookies := ck\<rparr>) ''selected_option'' = Some sel"
    using assms(2) by simp
  have "flt = ConnectFault \<or> flt = ExecuteFault \<or> flt = CommitFault \<Longrightarrow>
          insert_quiz_result flt db uid mid sc = db" for uid sc
    by (auto simp: insert_quiz_result_def)
  then have "flt = ConnectFault \<or> flt = ExecuteFault \<or> flt = CommitFault \<longrightarrow>
            fst (submit_quiz flt db mid req) = db"
    by (simp add: submit_quiz_found [OF assms] split: option.splits)
  then show ?thesis
    by (simp add: submit_quiz_found [OF assms] submit_quiz_found [OF assms(1) q assms(3)])
qed

theorem quiz_fault_swallowed_witness:
  "get_module 1 = Some (hd modules) \<and>
   submit_quiz ExecuteFault (init_db None) 1
     (request_of [(''selected_option'', ''One gallon'')] [(''user_id'', ''1'')]) =
   (init_db None,
    Inr (TemplateResponse ''quiz_result.html'' (QuizResult (hd modules) ''One gallon'' True)))"
proof -
  have q: "query_params (request_of [(''selected_option'', ''One gallon'')] [(''user_id'', ''1'')])
             ''selected_option'' = Some ''One gallon''"
    by (simp add: request_of_def)
  have ne: "''One gallon'' \<noteq> []" by simp
  from quiz_fault_swallowed [OF get_module_1 q ne, of ExecuteFault "init_db None"]
  have "snd (submit_quiz ExecuteFault (init_db None) 1
     (request_of [(''selected_option'', ''One gallon'')] [(''user_id'', ''1'')])) =
     Inr (TemplateResponse ''quiz_result.html'' (QuizResult (hd modules) ''One gallon'' True))
     \<and> fst (submit_quiz ExecuteFault (init_db None) 1
     (request_of [(''selected_option'', ''One gallon'')] [(''user_id'', ''1'')])) = init_db None"
    by (simp add: answer_1)
  then show ?thesis
    by (simp add: get_module_1 prod_eq_iff)
qed

text \<open>
  C1 as stated fails.  A quiz submission on module 1 with the option "One gallon" and no
  cookie, or with the cookie \<^verbatim>\<open>user_id=abc\<close>, on the empty store without any storage
  fault leaves the table of quiz results empty: no row with a null user is written.
\<close>

theorem quiz_without_token_writes_no_row:
  "quiz_results (fst (submit_quiz NoFault (init_db None) 1
      (request_of [(''selected_option'', ''One gallon'')] []))) = [] \<and>
   quiz_results (fst (submit_quiz NoFault (init_db None) 1
      (request_of [(''selected_option'', ''One gallon'')] [(''user_id'', ''abc'')]))) = []"
proof -
  have p: "py_int ''abc'' = None"
    by (rule py_int_examples)
  have q: "\<And>cs. query_params (request_of [(''selected_option'', ''One gallon'')] cs)
             ''selected_option'' = Some ''One gallon''"
    by (simp add: request_of_def)
  have ne: "''One gallon'' \<noteq> []" by simp
  show ?thesis
    by (simp add: submit_quiz_found [OF get_module_1 q ne] p) (simp add: request_of_def p)
qed

text \<open>
  C1, amended.  On an existing module with an option selected: when the request carries no
  \<^verbatim>\<open>user_id\<close> cookie, or one on which \<^verbatim>\<open>int\<close> raises, the store is left as it was and the
  result page is rendered; when the cookie is an integer \<open>u\<close> within 64 bits and the
  write does not fault, exactly one row is appended, with \<open>u\<close> as its user, the module
  id, and score 1 for a correct answer and 0 otherwise.
\<close>

theorem quiz_result_needs_parsable_token:
  assumes "get_module mid = Some m"
    and "query_params req ''selected_option'' = Some sel" and "sel \<noteq> []"
  shows "(cookies req ''user_id'' = None \<or>
          (\<exists>s. cookies req ''user_id'' = Some s \<and> py_int s = None) \<longrightarrow>
            submit_quiz flt db mid req =
              (db, Inr (TemplateResponse ''quiz_result.html''
                          (QuizResult m sel (sel = answer (question m)))))) \<and>
         (cookies req ''user_id'' = Some s \<and> py_int s = Some u \<and> fits_int64 u \<and>
                (flt = NoFault \<or> flt = CloseFault) \<and> quiz_results_seq db < max_rowid \<longrightarrow>
            quiz_results (fst (submit_quiz flt db mid req)) =
              quiz_results db @
                [\<lparr>qr_id = quiz_results_seq db + 1, user_id = Some u, module_id = mid,
                  score = (if sel = answer (question m) then 1 else 0)\<rparr>])"
proof (intro conjI impI)
  assume "cookies req ''user_id'' = None \<or>
          (\<exists>s. cookies req ''user_id'' = Some s \<and> py_int s = None)"
  then show "submit_quiz flt db mid req =
              (db, Inr (TemplateResponse ''quiz_result.html''
                          (QuizResult m sel (sel = answer (question m)))))"
    by (auto simp: submit_quiz_found [OF assms])
next
  assume a: "cookies req ''user_id'' = Some s \<and> py_int s = Some u \<and> fits_int64 u \<and>
                (flt = NoFault \<or> flt = CloseFault) \<and> quiz_results_seq db < max_rowid"
  from get_module_range [OF assms(1)] have fm: "fits_int64 mid"
    by (simp add: fits_int64_def)
  have fs: "fits_int64 (if sel = answer (question m) then 1 else 0)"
    by (simp add: fits_int64_def)
  from a have fu: "fits_int64 u" by simp
  show "quiz_results (fst (submit_quiz flt db mid req)) =
              quiz_results db @
                [\<lparr>qr_id = quiz_results_seq db + 1, user_id = Some u, module_id = mid,
                  score = (if sel = answer (question m) then 1 else 0)\<rparr>]"
    using a by (simp add: submit_quiz_found [OF assms] insert_quiz_result_cases [OF fu fm fs])
qed

theorem quiz_result_needs_parsable_token_witness:
  "get_module 1 = Some (hd modules) \<and>
   cookies (request_of [(''selected_option'', ''Two gallons'')] []) ''user_id'' = None \<and>
   submit_quiz NoFault (init_db None) 1 (request_of [(''selected_option'', ''Two gallons'')] []) =
     (init_db None,
      Inr (TemplateResponse ''quiz_result.html'' (QuizResult (hd modules) ''Two gallons'' False))) \<and>
   py_int [CHR 0x1C, CHR ''3''] = None \<and>
   submit_quiz NoFault (init_db None) 1
     (request_of [(''selected_option'', ''Two gallons'')] [(''user_id'', [CHR 0x1C, CHR ''3''])]) =
     (init_db None,
      Inr (TemplateResponse ''quiz_result.html'' (QuizResult (hd modules) ''Two gallons'' False))) \<and>
   py_int ''3'' = Some 3 \<and>
   quiz_results (fst (submit_quiz NoFault (init_db None) 1
      (request_of [(''selected_option'', ''Two gallons'')] [(''user_id'', ''3'')]))) =
     [\<lparr>qr_id = 1, user_id = Some 3, module_id = 1, score = 0\<rparr>] \<and>
   py_int [CHR 0xC2, CHR 0xA0, CHR ''3''] = Some 3 \<and>
   quiz_results (fst (submit_quiz NoFault (init_db None) 1
      (request_of [(''selected_option'', ''Two gallons'')]
                  [(''user_id'', [CHR 0xC2, CHR 0xA0, CHR ''3''])]))) =
     [\<lparr>qr_id = 1, user_id = Some 3, module_id = 1, score = 0\<rparr>]"
proof -
  let ?r0 = "request_of [(''selected_option'', ''Two gallons'')] []"
  let ?r1 = "request_of [(''selected_option'', ''Two gallons'')] [(''user_id'', ''3'')]"
  let ?r2 = "request_of [(''selected_option'', ''Two gallons'')]
               [(''user_id'', [CHR 0x1C, CHR ''3''])]"
  let ?r3 = "request_of [(''selected_option'', ''Two gallons'')]
               [(''user_id'', [CHR 0xC2, CHR 0xA0, CHR ''3''])]"
  have ne: "''Two gallons'' \<noteq> []" by simp
  have c0: "cookies ?r0 ''user_id'' = None" by (simp add: request_of_def)
  have c1: "cookies ?r1 ''user_id'' = Some ''3''" by (simp add: request_of_def)
  have c2: "\<exists>s. cookies ?r2 ''user_id'' = Some s \<and> py_int s = None"
    by (simp add: request_of_def py_int_unicode_examples)
  have c3: "cookies ?r3 ''user_id'' = Some [CHR 0xC2, CHR 0xA0, CHR ''3'']"
    by (simp add: request_of_def)
  have f: "fits_int64 3" by (simp add: fits_int64_def)
  have s: "quiz_results_seq (init_db None) < max_rowid" by (simp add: max_rowid_def)
  from quiz_result_needs_parsable_token
         [where flt = NoFault and db = "init_db None",
          OF get_module_1 quiz_request_selected [of _ "[]"] ne] c0
  have w0: "submit_quiz NoFault (init_db None) 1 ?r0 =
     (init_db None,
      Inr (TemplateResponse ''quiz_result.html'' (QuizResult (hd modules) ''Two gallons'' False)))"
    by (simp add: answer_1)
  from quiz_result_needs_parsable_token
         [where flt = NoFault and db = "init_db None",
          OF get_module_1 quiz_request_selected [of _ "[(''user_id'', [CHR 0x1C, CHR ''3''])]"] ne]
       c2
  have w2: "submit_quiz NoFault (init_db None) 1 ?r2 =
     (init_db None,
      Inr (TemplateResponse ''quiz_result.html'' (QuizResult (hd modules) ''Two gallons'' False)))"
    by (simp add: answer_1)
  from quiz_result_needs_parsable_token
         [where flt = NoFault and db = "init_db None" and s = "''3''" and u = 3,
          OF get_module_1 quiz_request_selected [of _ "[(''user_id'', ''3'')]"] ne]
  have "cookies ?r1 ''user_id'' = Some ''3'' \<and> py_int ''3'' = Some 3 \<and> fits_int64 3 \<and>
        quiz_results_seq (init_db None) < max_rowid \<longrightarrow>
        quiz_results (fst (submit_quiz NoFault (init_db None) 1 ?r1)) =
          [\<lparr>qr_id = 1, user_id = Some 3, module_id = 1, score = 0\<rparr>]"
    by (simp add: answer_1)
  with c1 f s have w1: "quiz_results (fst (submit_quiz NoFault (init_db None) 1 ?r1)) =
          [\<lparr>qr_id = 1, user_id = Some 3, module_id = 1, score = 0\<rparr>]"
    by (simp add: py_int_examples)
  from quiz_result_needs_parsable_token
         [where flt = NoFault and db = "init_db None"
            and s = "[CHR 0xC2, CHR 0xA0, CHR ''3'']" and u = 3,
          OF get_module_1
             quiz_request_selected [of _ "[(''user_id'', [CHR 0xC2, CHR 0xA0, CHR ''3''])]"] ne]
  have "cookies ?r3 ''user_id'' = Some [CHR 0xC2, CHR 0xA0, CHR ''3''] \<and>
        py_int [CHR 0xC2, CHR 0xA0, CHR ''3''] = Some 3 \<and> fits_int64 3 \<and>
        quiz_results_seq (init_db None) < max_rowid \<longrightarrow>
        quiz_results (fst (submit_quiz NoFault (init_db None) 1 ?r3)) =
          [\<lparr>qr_id = 1, user_id = Some 3, module_id = 1, score = 0\<rparr>]"
    by (simp add: answer_1)
  with c3 f s have w3: "quiz_results (fst (submit_quiz NoFault (init_db None) 1 ?r3)) =
          [\<lparr>qr_id = 1, user_id = Some 3, module_id = 1, score = 0\<rparr>]"
    by (simp add: py_int_unicode_examples)
  from w0 w1 w2 w3 c0 show ?thesis
    by (simp add: get_module_1 py_int_examples py_int_unicode_examples)
qed

subsection \<open>The onboarding handler\<close>

lemma submit_onboarding_cases:
  "submit_onboarding flt db req = (db, RedirectResponse ''/modules'' 303 None) \<or>
   (submit_onboarding flt db req =
      (db, RedirectResponse ''/modules'' 303
             (Some \<lparr>key = ''user_id'', cvalue = py_str (user_profiles_seq db + 1),
                    max_age = 60 * 60 * 24 * 30, httponly = True\<rparr>)) \<and>
      user_profiles_seq db < max_rowid) \<or>
   (\<exists>fam loc skill.
      submit_onboarding flt db req =
        (db\<lparr>user_profiles := user_profiles db @
               [\<lparr>up_id = user_profiles_seq db + 1, family_size = fam, location = loc,
                 skill_level = skill\<rparr>],
            user_profiles_seq := user_profiles_seq db + 1\<rparr>,
         RedirectResponse ''/modules'' 303
             (Some \<lparr>key = ''user_id'', cvalue = py_str (user_profiles_seq db + 1),
                    max_age = 60 * 60 * 24 * 30, httponly = True\<rparr>)) \<and>
      user_profiles_seq db < max_rowid)"
proof (cases "truthy (query_params req ''family_size'') \<and> truthy (query_params req ''location'')
              \<and> truthy (query_params req ''skill_level'')")
  case False
  then show ?thesis by (auto simp: submit_onboarding_def Let_def)
next
  case t: True
  show ?thesis
  proof (cases "py_int (the (query_params req ''family_size''))")
    case None
    with t show ?thesis by (simp add: submit_onboarding_def Let_def)
  next
    case (Some fam)
    show ?thesis
    proof (cases "fam > 0")
      case False
      with t Some show ?thesis by (simp add: submit_onboarding_def Let_def)
    next
      case True
      let ?loc = "the (query_params req ''location'')"
      let ?skill = "the (query_params req ''skill_level'')"
      have eq: "submit_onboarding flt db req =
        (fst (insert_user_profile flt db fam ?loc ?skill),
         RedirectResponse ''/modules'' 303
           (case snd (insert_user_profile flt db fam ?loc ?skill) of
              None \<Rightarrow> None
            | Some u \<Rightarrow> Some \<lparr>key = ''user_id'', cvalue = py_str u,
                               max_age = 60 * 60 * 24 * 30, httponly = True\<rparr>))"
        using t Some True by (simp add: submit_onboarding_def Let_def split_beta)
      from insert_user_profile_cases [of flt db fam ?loc ?skill]
      show ?thesis
      proof (elim disjE conjE)
        assume "insert_user_profile flt db fam ?loc ?skill = (db, None)"
        with eq show ?thesis by simp
      next
        assume "insert_user_profile flt db fam ?loc ?skill = (db, Some (user_profiles_seq db + 1))"
          and "user_profiles_seq db < max_rowid"
        with eq show ?thesis by simp
      next
        assume "insert_user_profile flt db fam ?loc ?skill =
          (db\<lparr>user_profiles := user_profiles db @
             [\<lparr>up_id = user_profiles_seq db + 1, family_size = fam, location = ?loc,
               skill_level = ?skill\<rparr>],
             user_profiles_seq := user_profiles_seq db + 1\<rparr>,
           Some (user_profiles_seq db + 1))"
          and "user_profiles_seq db < max_rowid"
        with eq show ?thesis by auto
      qed
    qed
  qed
qed

lemma onboarding_appended:
  assumes "submit_onboarding flt db req = (db1, resp)"
    and "user_profiles db1 = user_profiles db @ [p]"
  shows "up_id p = user_profiles_seq db + 1 \<and> user_profiles_seq db1 = up_id p \<and>
         up_id p \<le> max_rowid \<and>
         resp = RedirectResponse ''/modules'' 303
                  (Some \<lparr>key = ''user_id'', cvalue = py_str (up_id p),
                         max_age = 60 * 60 * 24 * 30, httponly = True\<rparr>)"
  using submit_onboarding_cases [of flt db req] assms by auto

lemma onboarding_wf:
  assumes "db_wf db"
  shows "db_wf (fst (submit_onboarding flt db req)) \<and>
         user_profiles_seq db \<le> user_profiles_seq (fst (submit_onboarding flt db req))"
  using submit_onboarding_cases [of flt db req] assms db_wf_append [OF assms]
  by auto

lemma step_wf:
  assumes "db_wf db"
  shows "db_wf (step db ev) \<and> user_profiles_seq db \<le> user_profiles_seq (step db ev)"
proof (cases ev)
  case (Onboarding flt req)
  then show ?thesis using onboarding_wf [OF assms] by simp
next
  case (Quiz flt mid req)
  then show ?thesis using assms submit_quiz_profiles [of flt db mid req]
    by (simp add: db_wf_def)
qed

lemma run_wf:
  "db_wf db \<Longrightarrow> db_wf (run db evs) \<and> user_profiles_seq db \<le> user_profiles_seq (run db evs)"
proof (induction evs arbitrary: db)
  case Nil
  then show ?case by (simp add: run_def)
next
  case (Cons ev evs)
  from step_wf [OF Cons.prems, of ev]
  have w: "db_wf (step db ev)" and le: "user_profiles_seq db \<le> user_profiles_seq (step db ev)"
    by simp_all
  from Cons.IH [OF w] le show ?case by (simp add: run_def)
qed

text \<open>Every store reached from the empty one by requests is well formed.\<close>

lemma reachable_wf: "db_wf (run (init_db None) evs)"
  using run_wf [OF db_wf_init, of evs] by simp

lemma example_onboarding_first:
  "submit_onboarding NoFault (init_db None) example_onboarding =
     (\<lparr>user_profiles = [example_profile 1], user_profiles_seq = 1,
       quiz_results = [], quiz_results_seq = 0\<rparr>,
      RedirectResponse ''/modules'' 303 (Some (session_cookie ''1'')))"
  by (simp add: submit_onboarding_def example_onboarding_def request_of_def py_int_examples
      insert_user_profile_def fits_int64_def max_rowid_def example_profile_def
      session_cookie_def py_str_1)

lemma example_onboarding_second:
  "submit_onboarding NoFault
     \<lparr>user_profiles = [example_profile 1], user_profiles_seq = 1,
      quiz_results = [], quiz_results_seq = 0\<rparr> example_onboarding =
     (\<lparr>user_profiles = [example_profile 1, example_profile 2], user_profiles_seq = 2,
       quiz_results = [], quiz_results_seq = 0\<rparr>,
      RedirectResponse ''/modules'' 303 (Some (session_cookie ''2'')))"
  by (simp add: submit_onboarding_def example_onboarding_def request_of_def py_int_examples
      insert_user_profile_def fits_int64_def max_rowid_def example_profile_def
      session_cookie_def py_str_2)

text \<open>
  A digit of another script counts: with \<^verbatim>\<open>family_size\<close> the Arabic-Indic digit three
  (U+0663) the profile is created with a household of three.
\<close>

lemma onboarding_arabic_indic_three:
  "submit_onboarding NoFault (init_db None)
     (request_of [(''family_size'', [CHR 0xD9, CHR 0xA3]), (''location'', ''Portland''),
                  (''skill_level'', ''beginner'')] []) =
     (\<lparr>user_profiles = [example_profile 1], user_profiles_seq = 1,
       quiz_results = [], quiz_results_seq = 0\<rparr>,
      RedirectResponse ''/modules'' 303 (Some (session_cookie ''1'')))"
  by (simp add: submit_onboarding_def request_of_def py_int_unicode_examples
      insert_user_profile_def fits_int64_def max_rowid_def example_profile_def
      session_cookie_def py_str_1)

text \<open>
  C5. An onboarding submission in which \<^verbatim>\<open>family_size\<close>, \<^verbatim>\<open>location\<close> or
  \<^verbatim>\<open>skill_level\<close> is missing or empty, or whose \<^verbatim>\<open>family_size\<close> is no integer
  (\<^verbatim>\<open>int\<close> raises on it), or is zero or negative, leaves the store as it was and is
  answered by the redirect (303) to \<^verbatim>\<open>/modules\<close> without a cookie; no error is raised.
\<close>

theorem invalid_onboarding_writes_nothing:
  assumes "\<not> truthy (query_params req ''family_size'') \<or>
           \<not> truthy (query_params req ''location'') \<or>
           \<not> truthy (query_params req ''skill_level'') \<or>
           (\<exists>s. query_params req ''family_size'' = Some s \<and>
                (py_int s = None \<or> (\<exists>n. py_int s = Some n \<and> n \<le> 0)))"
  shows "submit_onboarding flt db req = (db, RedirectResponse ''/modules'' 303 None)"
  using assms by (auto simp: submit_onboarding_def Let_def)

theorem invalid_onboarding_writes_nothing_witness:
  "py_int ''0'' = Some 0 \<and>
   submit_onboarding NoFault (init_db None)
     (request_of [(''family_size'', ''0''), (''location'', ''Portland''),
                  (''skill_level'', ''beginner'')] []) =
     (init_db None, RedirectResponse ''/modules'' 303 None) \<and>
   py_int ''three'' = None \<and>
   submit_onboarding NoFault (init_db None)
     (request_of [(''family_size'', ''three''), (''location'', ''Portland''),
                  (''skill_level'', ''beginner'')] []) =
     (init_db None, RedirectResponse ''/modules'' 303 None) \<and>
   submit_onboarding NoFault (init_db None)
     (request_of [(''family_size'', ''3''), (''location'', ''''),
                  (''skill_level'', ''beginner'')] []) =
     (init_db None, RedirectResponse ''/modules'' 303 None) \<and>
   py_int [CHR 0x1C, CHR ''3''] = None \<and>
   submit_onboarding NoFault (init_db None)
     (request_of [(''family_size'', [CHR 0x1C, CHR ''3'']), (''location'', ''Portland''),
                  (''skill_level'', ''beginner'')] []) =
     (init_db None, RedirectResponse ''/modules'' 303 None) \<and>
   py_int [CHR 0xE4, CHR 0xB8, CHR 0x89] = None \<and>
   submit_onboarding NoFault (init_db None)
     (request_of [(''family_size'', [CHR 0xE4, CHR 0xB8, CHR 0x89]), (''location'', ''Portland''),
                  (''skill_level'', ''beginner'')] []) =
     (init_db None, RedirectResponse ''/modules'' 303 None)"
proof -
  let ?r0 = "request_of [(''family_size'', ''0''), (''location'', ''Portland''),
                  (''skill_level'', ''beginner'')] []"
  let ?r1 = "request_of [(''family_size'', ''three''), (''location'', ''Portland''),
                  (''skill_level'', ''beginner'')] []"
  let ?r2 = "request_of [(''family_size'', ''3''), (''location'', ''''),
                  (''skill_level'', ''beginner'')] []"
  let ?r3 = "request_of [(''family_size'', [CHR 0x1C, CHR ''3'']), (''location'', ''Portland''),
                  (''skill_level'', ''beginner'')] []"
  let ?r4 = "request_of [(''family_size'', [CHR 0xE4, CHR 0xB8, CHR 0x89]),
                  (''location'', ''Portland''), (''skill_level'', ''beginner'')] []"
  have h0: "\<exists>s. query_params ?r0 ''family_size'' = Some s \<and>
                (py_int s = None \<or> (\<exists>n. py_int s = Some n \<and> n \<le> 0))"
    by (simp add: request_of_def py_int_examples)
  have h1: "\<exists>s. query_params ?r1 ''family_size'' = Some s \<and>
                (py_int s = None \<or> (\<exists>n. py_int s = Some n \<and> n \<le> 0))"
    by (simp add: request_of_def py_int_examples)
  have h2: "\<not> truthy (query_params ?r2 ''location'')"
    by (simp add: request_of_def)
  have h3: "\<exists>s. query_params ?r3 ''family_size'' = Some s \<and>
                (py_int s = None \<or> (\<exists>n. py_int s = Some n \<and> n \<le> 0))"
    by (simp add: request_of_def py_int_unicode_examples)
  have h4: "\<exists>s. query_params ?r4 ''family_size'' = Some s \<and>
                (py_int s = None \<or> (\<exists>n. py_int s = Some n \<and> n \<le> 0))"
    by (simp add: request_of_def py_int_unicode_examples)
  show ?thesis
    using invalid_onboarding_writes_nothing [OF disjI2 [OF disjI2 [OF disjI2 [OF h0]]], of NoFault "init_db None"]
          invalid_onboarding_writes_nothing [OF disjI2 [OF disjI2 [OF disjI2 [OF h1]]], of NoFault "init_db None"]
          invalid_onboarding_writes_nothing [OF disjI2 [OF disjI1 [OF h2]], of NoFault "init_db None"]
          invalid_onboarding_writes_nothing [OF disjI2 [OF disjI2 [OF disjI2 [OF h3]]], of NoFault "init_db None"]
          invalid_onboarding_writes_nothing [OF disjI2 [OF disjI2 [OF disjI2 [OF h4]]], of NoFault "init_db None"]
    by (simp add: py_int_examples py_int_unicode_examples)
qed

text \<open>
  C9. Keys of created profiles increase strictly.  From a well-formed store, let one
  onboarding submission append a profile row, let any requests follow, and let a later
  submission (with any parameters, the same ones included) append a row again.  Then the
  first key is positive, the second is greater, each is the value of the cookie its
  response sets, every row present before the second insertion has a smaller key, and no
  key occurs twice in the table.
\<close>

theorem profile_ids_strictly_increasing:
  assumes "db_wf db"
    and "submit_onboarding f1 db r1 = (db1, resp1)"
    and "user_profiles db1 = user_profiles db @ [p1]"
    and "submit_onboarding f2 (run db1 evs) r2 = (db2, resp2)"
    and "user_profiles db2 = user_profiles (run db1 evs) @ [p2]"
  shows "0 < up_id p1 \<and> up_id p1 < up_id p2 \<and>
         resp1 = RedirectResponse ''/modules'' 303
                   (Some \<lparr>key = ''user_id'', cvalue = py_str (up_id p1),
                          max_age = 60 * 60 * 24 * 30, httponly = True\<rparr>) \<and>
         resp2 = RedirectResponse ''/modules'' 303
                   (Some \<lparr>key = ''user_id'', cvalue = py_str (up_id p2),
                          max_age = 60 * 60 * 24 * 30, httponly = True\<rparr>) \<and>
         list_all (\<lambda>p. up_id p < up_id p2) (user_profiles (run db1 evs)) \<and>
         distinct (map up_id (user_profiles db2))"
proof -
  from onboarding_appended [OF assms(2,3)]
  have i1: "up_id p1 = user_profiles_seq db + 1" and s1: "user_profiles_seq db1 = up_id p1"
    and c1: "resp1 = RedirectResponse ''/modules'' 303
                   (Some \<lparr>key = ''user_id'', cvalue = py_str (up_id p1),
                          max_age = 60 * 60 * 24 * 30, httponly = True\<rparr>)"
    by simp_all
  from assms(1) have "0 \<le> user_profiles_seq db" by (simp add: db_wf_def)
  with i1 have pos: "0 < up_id p1" by simp
  have w1: "db_wf db1"
    using onboarding_wf [OF assms(1), of f1 r1] assms(2) by simp
  from run_wf [OF w1, of evs]
  have wr: "db_wf (run db1 evs)" and le: "user_profiles_seq db1 \<le> user_profiles_seq (run db1 evs)"
    by simp_all
  from onboarding_appended [OF assms(4,5)]
  have i2: "up_id p2 = user_profiles_seq (run db1 evs) + 1"
    and c2: "resp2 = RedirectResponse ''/modules'' 303
                   (Some \<lparr>key = ''user_id'', cvalue = py_str (up_id p2),
                          max_age = 60 * 60 * 24 * 30, httponly = True\<rparr>)"
    by simp_all
  from i2 le s1 have lt: "up_id p1 < up_id p2" by simp
  from wr i2 have older: "list_all (\<lambda>p. up_id p < up_id p2) (user_profiles (run db1 evs))"
    by (auto simp: db_wf_def list_all_iff)
  have "db_wf db2"
    using onboarding_wf [OF wr, of f2 r2] assms(4) by simp
  then have d: "distinct (map up_id (user_profiles db2))" by (simp add: db_wf_def)
  from pos lt c1 c2 older d show ?thesis by simp
qed

theorem profile_ids_strictly_increasing_witness:
  "db_wf (init_db None) \<and>
   submit_onboarding NoFault (init_db None) example_onboarding =
     (\<lparr>user_profiles = [example_profile 1], user_profiles_seq = 1,
       quiz_results = [], quiz_results_seq = 0\<rparr>,
      RedirectResponse ''/modules'' 303 (Some (session_cookie ''1''))) \<and>
   submit_onboarding NoFault
     (run \<lparr>user_profiles = [example_profile 1], user_profiles_seq = 1,
           quiz_results = [], quiz_results_seq = 0\<rparr> []) example_onboarding =
     (\<lparr>user_profiles = [example_profile 1, example_profile 2], user_profiles_seq = 2,
       quiz_results = [], quiz_results_seq = 0\<rparr>,
      RedirectResponse ''/modules'' 303 (Some (session_cookie ''2''))) \<and>
   0 < up_id (example_profile 1) \<and> up_id (example_profile 1) < up_id (example_profile 2) \<and>
   up_id (example_profile 1) = 1 \<and> up_id (example_profile 2) = 2"
proof -
  let ?db1 = "\<lparr>user_profiles = [example_profile 1], user_profiles_seq = 1,
               quiz_results = [], quiz_results_seq = 0\<rparr>"
  let ?db2 = "\<lparr>user_profiles = [example_profile 1, example_profile 2], user_profiles_seq = 2,
               quiz_results = [], quiz_results_seq = 0\<rparr>"
  have r: "run ?db1 [] = ?db1" by (simp add: run_def)
  have e2: "submit_onboarding NoFault (run ?db1 []) example_onboarding =
              (?db2, RedirectResponse ''/modules'' 303 (Some (session_cookie ''2'')))"
    unfolding r by (rule example_onboarding_second)
  have a1: "user_profiles ?db1 = user_profiles (init_db None) @ [example_profile 1]" by simp
  have a2: "user_profiles ?db2 = user_profiles (run ?db1 []) @ [example_profile 2]"
    unfolding r by simp
  from profile_ids_strictly_increasing [OF db_wf_init example_onboarding_first a1 e2 a2]
  have "0 < up_id (example_profile 1) \<and> up_id (example_profile 1) < up_id (example_profile 2)"
    by simp
  with db_wf_init example_onboarding_first e2 show ?thesis
    by (simp add: example_profile_def)
qed

subsection \<open>Round trip of the session identity\<close>

text \<open>
  C3. Let an onboarding submission on a well-formed store append the profile row \<open>p\<close> and
  set a cookie.  The cookie is named \<^verbatim>\<open>user_id\<close> and its value is the decimal string of
  the key of \<open>p\<close>.  A later quiz submission presenting that cookie, on an existing module
  with an option selected and on any store, appends exactly one quiz result whose user is
  the key of \<open>p\<close> (with the module id and the score of the verdict), provided the write
  does not fault and the table's keys are not used up; otherwise it writes nothing.
\<close>

theorem session_round_trip:
  assumes "db_wf db"
    and "submit_onboarding f1 db r1 = (db1, RedirectResponse url st (Some ck))"
    and "user_profiles db1 = user_profiles db @ [p]"
    and "get_module mid = Some m"
    and "query_params r2 ''selected_option'' = Some sel" and "sel \<noteq> []"
    and "cookies r2 (key ck) = Some (cvalue ck)"
  shows "key ck = ''user_id'' \<and> cvalue ck = py_str (up_id p) \<and>
         ((flt' = NoFault \<or> flt' = CloseFault) \<and> quiz_results_seq db' < max_rowid \<longrightarrow>
            quiz_results (fst (submit_quiz flt' db' mid r2)) =
              quiz_results db' @
                [\<lparr>qr_id = quiz_results_seq db' + 1, user_id = Some (up_id p), module_id = mid,
                  score = (if sel = answer (question m) then 1 else 0)\<rparr>]) \<and>
         (\<not> ((flt' = NoFault \<or> flt' = CloseFault) \<and> quiz_results_seq db' < max_rowid) \<longrightarrow>
            fst (submit_quiz flt' db' mid r2) = db')"
proof -
  from onboarding_appended [OF assms(2,3)]
  have i: "up_id p = user_profiles_seq db + 1" and le: "up_id p \<le> max_rowid"
    and ck: "ck = \<lparr>key = ''user_id'', cvalue = py_str (up_id p),
                   max_age = 60 * 60 * 24 * 30, httponly = True\<rparr>"
    by simp_all
  from ck have k: "key ck = ''user_id''" and v: "cvalue ck = py_str (up_id p)" by simp_all
  from assms(1) i have lo: "- 1 \<le> up_id p" by (simp add: db_wf_def)
  then have fu: "fits_int64 (up_id p)" using le by (rule fits_int64_small)
  from get_module_range [OF assms(4)] have fm: "fits_int64 mid"
    by (simp add: fits_int64_def)
  have fs: "fits_int64 (if sel = answer (question m) then 1 else 0)"
    by (simp add: fits_int64_def)
  from assms(7) k v have c: "cookies r2 ''user_id'' = Some (py_str (up_id p))" by simp
  have dbq: "fst (submit_quiz flt' db' mid r2) =
               insert_quiz_result flt' db' (up_id p) mid (if sel = answer (question m) then 1 else 0)"
    by (simp add: submit_quiz_found [OF assms(4,5,6)] c py_int_rowid [OF lo le])
  show ?thesis
    unfolding dbq insert_quiz_result_cases [OF fu fm fs] using k v by simp
qed

theorem session_round_trip_witness:
  "db_wf (init_db None) \<and>
   submit_onboarding NoFault (init_db None) example_onboarding =
     (\<lparr>user_profiles = [example_profile 1], user_profiles_seq = 1,
       quiz_results = [], quiz_results_seq = 0\<rparr>,
      RedirectResponse ''/modules'' 303 (Some (session_cookie ''1''))) \<and>
   cookies (request_of [(''selected_option'', ''One gallon'')] [(''user_id'', ''1'')])
     (key (session_cookie ''1'')) = Some (cvalue (session_cookie ''1'')) \<and>
   quiz_results (fst (submit_quiz NoFault
       \<lparr>user_profiles = [example_profile 1], user_profiles_seq = 1,
        quiz_results = [], quiz_results_seq = 0\<rparr> 1
       (request_of [(''selected_option'', ''One gallon'')] [(''user_id'', ''1'')]))) =
     [\<lparr>qr_id = 1, user_id = Some 1, module_id = 1, score = 1\<rparr>]"
proof -
  let ?db1 = "\<lparr>user_profiles = [example_profile 1], user_profiles_seq = 1,
               quiz_results = [], quiz_results_seq = 0\<rparr>"
  let ?r2 = "request_of [(''selected_option'', ''One gallon'')] [(''user_id'', ''1'')]"
  have a: "user_profiles ?db1 = user_profiles (init_db None) @ [example_profile 1]" by simp
  have ne: "''One gallon'' \<noteq> []" by simp
  have c: "cookies ?r2 (key (session_cookie ''1'')) = Some (cvalue (session_cookie ''1''))"
    by (simp add: request_of_def session_cookie_def)
  from session_round_trip
         [where flt' = NoFault and db' = ?db1,
          OF db_wf_init example_onboarding_first a get_module_1 quiz_request_selected ne c]
  have "quiz_results (fst (submit_quiz NoFault ?db1 1 ?r2)) =
          [\<lparr>qr_id = 1, user_id = Some 1, module_id = 1, score = 1\<rparr>]"
    by (simp add: max_rowid_def answer_1 example_profile_def)
  with db_wf_init example_onboarding_first c show ?thesis by simp
qed

end
